theory Spec2Isabelle
  imports Complex_Main
begin

section \<open>Python values of the telemetry endpoints\<close>

text \<open>
  The endpoints of \<^verbatim>\<open>app/api/api_v1/endpoints/iot.py\<close> work on JSON payloads, which
  Python holds as dynamically typed values. A float is one of the exact rational values, an
  infinity or the not-a-number; every IEEE double is one of them, and Python compares an
  \<^verbatim>\<open>int\<close> with a \<^verbatim>\<open>float\<close> by their exact values. \<^verbatim>\<open>bool\<close> is a subclass of
  \<^verbatim>\<open>int\<close>, so \<^verbatim>\<open>isinstance(True, (int, float))\<close> holds and a JSON boolean is a number
  for the code.
\<close>

datatype pyfloat = Finite rat | PosInf | NegInf | NaN

datatype pynum = PBool bool | PInt int | PFloat pyfloat

datatype json =
    JNull
  | JNum pynum
  | JStr string
  | JList "json list"
  | JObj "(string \<times> json) list"

text \<open>The exceptions the endpoints raise or meet.\<close>

datatype exn =
    HTTPException nat string
  | AttributeError
  | TypeError
  | OverflowError
  | ValidationError
  | StoreError

text \<open>
  What the interpreter computes on doubles is not part of the repository: rounding an
  \<^verbatim>\<open>int\<close> to a \<^verbatim>\<open>float\<close> (\<^verbatim>\<open>float(i)\<close>, which raises OverflowError on an integer too
  large), the text of a float in an f-string, and the text of an exception under
  \<^verbatim>\<open>str(e)\<close>. The endpoints take them from this record, and every theorem holds for
  each such runtime.
\<close>

record runtime =
  float_of_int :: "int \<Rightarrow> pyfloat option"
  repr_float :: "pyfloat \<Rightarrow> string"
  str_exn :: "exn \<Rightarrow> string"

subsection \<open>Truthiness, comparison and formatting\<close>

fun num_val :: "pynum \<Rightarrow> pyfloat" where
  "num_val (PBool b) = Finite (if b then 1 else 0)"
| "num_val (PInt i) = Finite (of_int i)"
| "num_val (PFloat f) = f"

fun float_less :: "pyfloat \<Rightarrow> pyfloat \<Rightarrow> bool" where
  "float_less NaN _ = False"
| "float_less _ NaN = False"
| "float_less (Finite a) (Finite b) = (a < b)"
| "float_less (Finite _) PosInf = True"
| "float_less (Finite _) NegInf = False"
| "float_less PosInf _ = False"
| "float_less NegInf NegInf = False"
| "float_less NegInf _ = True"

definition num_gt :: "pynum \<Rightarrow> pynum \<Rightarrow> bool" where
  "num_gt a b = float_less (num_val b) (num_val a)"

definition num_lt :: "pynum \<Rightarrow> pynum \<Rightarrow> bool" where
  "num_lt a b = float_less (num_val a) (num_val b)"

text \<open>\<^verbatim>\<open>bool(x)\<close> of a number: zero is false; an infinity and the NaN are true.\<close>

fun truthy_num :: "pynum \<Rightarrow> bool" where
  "truthy_num (PBool b) = b"
| "truthy_num (PInt i) = (i \<noteq> 0)"
| "truthy_num (PFloat (Finite r)) = (r \<noteq> 0)"
| "truthy_num (PFloat _) = True"

text \<open>A name bound to \<^verbatim>\<open>None\<close> or to a number, in a condition.\<close>

fun truthy_value :: "pynum option \<Rightarrow> bool" where
  "truthy_value None = False"
| "truthy_value (Some v) = truthy_num v"

fun truthy_json :: "json \<Rightarrow> bool" where
  "truthy_json JNull = False"
| "truthy_json (JNum n) = truthy_num n"
| "truthy_json (JStr s) = (s \<noteq> [])"
| "truthy_json (JList xs) = (xs \<noteq> [])"
| "truthy_json (JObj kvs) = (kvs \<noteq> [])"

text \<open>
  \<^verbatim>\<open>value > x\<close> and \<^verbatim>\<open>value < x\<close> for \<^verbatim>\<open>value\<close> a number or \<^verbatim>\<open>None\<close> and a
  JSON value \<^verbatim>\<open>x\<close>: Python raises TypeError unless both are numbers.
\<close>

fun py_gt :: "pynum option \<Rightarrow> json \<Rightarrow> exn + bool" where
  "py_gt (Some v) (JNum n) = Inr (num_gt v n)"
| "py_gt _ _ = Inl TypeError"

fun py_lt :: "pynum option \<Rightarrow> json \<Rightarrow> exn + bool" where
  "py_lt (Some v) (JNum n) = Inr (num_lt v n)"
| "py_lt _ _ = Inl TypeError"

definition digit_char :: "nat \<Rightarrow> char" where
  "digit_char n = ''0123456789'' ! (n mod 10)"

fun str_nat :: "nat \<Rightarrow> string" where
  "str_nat n = (if n < 10 then [digit_char n] else str_nat (n div 10) @ [digit_char n])"

definition str_int :: "int \<Rightarrow> string" where
  "str_int i = (if i < 0 then CHR ''-'' # str_nat (nat (- i)) else str_nat (nat i))"

text \<open>\<^verbatim>\<open>{value}\<close> in an f-string.\<close>

fun py_str :: "runtime \<Rightarrow> pynum option \<Rightarrow> string" where
  "py_str rt None = ''None''"
| "py_str rt (Some (PBool b)) = (if b then ''True'' else ''False'')"
| "py_str rt (Some (PInt i)) = str_int i"
| "py_str rt (Some (PFloat f)) = repr_float rt f"

text \<open>Raising inside a sequence of statements: the first exception ends it.\<close>

definition bind_exn :: "exn + 'a \<Rightarrow> ('a \<Rightarrow> exn + 'b) \<Rightarrow> exn + 'b" where
  "bind_exn m f = (case m of Inl e \<Rightarrow> Inl e | Inr x \<Rightarrow> f x)"

section \<open>Threshold resolution and classification\<close>

text \<open>
  \<^verbatim>\<open>thresholds.get(t, {}).get(k, d)\<close>: a value without a \<^verbatim>\<open>get\<close> method (anything but
  a dict) raises AttributeError.
\<close>

definition threshold_get :: "json \<Rightarrow> string \<Rightarrow> string \<Rightarrow> int \<Rightarrow> exn + json" where
  "threshold_get thresholds t k d =
     (case thresholds of
        JObj kvs \<Rightarrow>
          (case (case map_of kvs t of None \<Rightarrow> JObj [] | Some e \<Rightarrow> e) of
             JObj es \<Rightarrow> Inr (case map_of es k of None \<Rightarrow> JNum (PInt d) | Some x \<Rightarrow> x)
           | _ \<Rightarrow> Inl AttributeError)
      | _ \<Rightarrow> Inl AttributeError)"

text \<open>The thresholds \<^verbatim>\<open>_analyze_reading\<close> uses for a patient without a profile.\<close>

definition default_thresholds :: json where
  "default_thresholds = JObj
     [(''blood_pressure'', JObj [(''systolic_max'', JNum (PInt 140)), (''diastolic_max'', JNum (PInt 90))]),
      (''glucose'', JObj [(''max'', JNum (PInt 140)), (''min'', JNum (PInt 70))]),
      (''weight'', JObj [(''change_percent_max'', JNum (PInt 5))]),
      (''heart_rate'', JObj [(''max'', JNum (PInt 100)), (''min'', JNum (PInt 60))])]"

text \<open>A row of \<^verbatim>\<open>monitoring_profiles\<close>; only these columns are read.\<close>

record monitoring_profile =
  mp_patient_id :: nat
  mp_thresholds :: json

text \<open>The \<^verbatim>\<open>if not profile\<close> of \<^verbatim>\<open>_analyze_reading\<close>, on the profile the query found.\<close>

definition resolve_thresholds :: "monitoring_profile option \<Rightarrow> json" where
  "resolve_thresholds profile =
     (case profile of None \<Rightarrow> default_thresholds | Some p \<Rightarrow> mp_thresholds p)"

section \<open>The stored tables\<close>

text \<open>
  The rows of \<^verbatim>\<open>app/models/iot.py\<close>. A table is a list of rows under their primary
  keys, in insertion order; a nullable column is an option. A time is a number of ticks.
\<close>

type_synonym datetime = int

record sensor_device =
  sd_patient_id :: nat
  sd_device_type :: string
  sd_device_name :: string
  sd_manufacturer :: "string option"
  sd_model :: "string option"
  sd_device_id :: string
  sd_mac_address :: "string option"
  sd_is_active :: "bool option"
  sd_last_sync :: "datetime option"

record sensor_reading =
  sr_device_id :: nat
  sr_patient_id :: nat
  sr_reading_type :: string
  sr_reading_timestamp :: datetime
  sr_reading_data :: "(string \<times> json) list"
  sr_numeric_value :: "pynum option"
  sr_unit :: "json option"
  sr_quality :: string
  sr_is_alert :: bool
  sr_alert_severity :: "string option"
  sr_alert_message :: "string option"

record alert_log =
  al_patient_id :: nat
  al_sensor_reading_id :: "nat option"
  al_alert_type :: string
  al_severity :: "string option"
  al_alert_message :: "string option"
  al_alert_timestamp :: datetime
  al_is_read :: bool
  al_is_acknowledged :: bool
  al_acknowledged_by :: "string option"
  al_acknowledged_at :: "datetime option"

text \<open>Of a patient only the primary key is read here (\<^verbatim>\<open>Patient.id\<close>).\<close>

record tables =
  devices :: "(nat \<times> sensor_device) list"
  readings :: "(nat \<times> sensor_reading) list"
  alerts :: "(nat \<times> alert_log) list"
  profiles :: "(nat \<times> monitoring_profile) list"
  patients :: "nat list"

text \<open>
  Which operations of the store raise during one request. The store is outside the
  repository; the endpoints are defined for every combination of failures.
\<close>

record faults =
  device_query_raises :: bool
  patient_query_raises :: bool
  profile_query_raises :: bool
  commit_raises :: bool
  refresh_raises :: bool

definition no_faults :: faults where
  "no_faults = \<lparr>device_query_raises = False, patient_query_raises = False,
     profile_query_raises = False, commit_raises = False, refresh_raises = False\<rparr>"

subsection \<open>\<^verbatim>\<open>_analyze_reading\<close>\<close>

type_synonym analysis = "string \<times> bool \<times> string option \<times> string option"

definition analyze_reading ::
  "runtime \<Rightarrow> faults \<Rightarrow> string \<Rightarrow> pynum option \<Rightarrow> nat \<Rightarrow> tables \<Rightarrow> exn + analysis" where
  "analyze_reading rt fl reading_type value patient_id db =
     (if profile_query_raises fl then Inl StoreError
      else
        let profile = map_option snd
              (find (\<lambda>(pk, p). mp_patient_id p = patient_id) (profiles db));
            thresholds = resolve_thresholds profile
        in
          if reading_type = ''blood_pressure'' \<and> truthy_value value then
            bind_exn (threshold_get thresholds ''blood_pressure'' ''systolic_max'' 140) (\<lambda>hi.
            bind_exn (py_gt value hi) (\<lambda>above.
              if above then
                Inr (''warning'', True, Some ''warning'',
                     Some (''High blood pressure detected: '' @ py_str rt value @ '' mmHg''))
              else Inr (''good'', False, None, None)))
          else if reading_type = ''glucose'' \<and> truthy_value value then
            bind_exn (threshold_get thresholds ''glucose'' ''max'' 140) (\<lambda>hi.
            bind_exn (py_gt value hi) (\<lambda>above.
              if above then
                Inr (''critical'', True, Some ''critical'',
                     Some (''High glucose level: '' @ py_str rt value @ '' mg/dL''))
              else
                bind_exn (threshold_get thresholds ''glucose'' ''min'' 70) (\<lambda>lo.
                bind_exn (py_lt value lo) (\<lambda>below.
                  if below then
                    Inr (''critical'', True, Some ''critical'',
                         Some (''Low glucose level: '' @ py_str rt value @ '' mg/dL''))
                  else Inr (''good'', False, None, None)))))
          else if reading_type = ''heart_rate'' \<and> truthy_value value then
            bind_exn (threshold_get thresholds ''heart_rate'' ''max'' 100) (\<lambda>hi.
            bind_exn (py_gt value hi) (\<lambda>above.
              if above then
                Inr (''warning'', True, Some ''warning'',
                     Some (''High heart rate: '' @ py_str rt value @ '' bpm''))
              else
                bind_exn (threshold_get thresholds ''heart_rate'' ''min'' 60) (\<lambda>lo.
                bind_exn (py_lt value lo) (\<lambda>below.
                  if below then
                    Inr (''warning'', True, Some ''warning'',
                         Some (''Low heart rate: '' @ py_str rt value @ '' bpm''))
                  else Inr (''good'', False, None, None)))))
          else Inr (''good'', False, None, None))"

subsection \<open>\<^verbatim>\<open>_get_alert_type\<close>\<close>

text \<open>\<^verbatim>\<open>value and value > c\<close>, and \<^verbatim>\<open>value and value < c\<close>, against a constant.\<close>

definition value_and_gt :: "pynum option \<Rightarrow> int \<Rightarrow> bool" where
  "value_and_gt value c = (case value of None \<Rightarrow> False | Some v \<Rightarrow> truthy_num v \<and> num_gt v (PInt c))"

definition value_and_lt :: "pynum option \<Rightarrow> int \<Rightarrow> bool" where
  "value_and_lt value c = (case value of None \<Rightarrow> False | Some v \<Rightarrow> truthy_num v \<and> num_lt v (PInt c))"

definition get_alert_type :: "string \<Rightarrow> pynum option \<Rightarrow> string" where
  "get_alert_type reading_type value =
     (if reading_type = ''blood_pressure'' then
        (if value_and_gt value 140 then ''high_bp'' else ''general_'' @ reading_type)
      else if reading_type = ''glucose'' then
        (if value_and_gt value 140 then ''high_glucose''
         else if value_and_lt value 70 then ''low_glucose''
         else ''general_'' @ reading_type)
      else if reading_type = ''heart_rate'' then
        (if value_and_gt value 100 then ''high_heart_rate''
         else if value_and_lt value 60 then ''low_heart_rate''
         else ''general_'' @ reading_type)
      else ''general_'' @ reading_type)"

section \<open>The session\<close>

text \<open>
  A request works on a session of its own (\<^verbatim>\<open>get_db\<close>): rows added and rows changed
  are held by the session until \<^verbatim>\<open>commit\<close>, which writes all of them in one transaction
  or raises and writes none; \<^verbatim>\<open>rollback\<close> drops them. The session is created with
  \<^verbatim>\<open>autoflush=False\<close>, so no query writes.
\<close>

record session =
  stored :: tables
  new_devices :: "sensor_device list"
  new_readings :: "sensor_reading list"
  new_alerts :: "alert_log list"
  dirty_devices :: "(nat \<times> sensor_device) list"

definition open_session :: "tables \<Rightarrow> session" where
  "open_session db = \<lparr>stored = db, new_devices = [], new_readings = [], new_alerts = [],
     dirty_devices = []\<rparr>"

text \<open>The primary key the store gives the next row of a table.\<close>

definition next_id :: "(nat \<times> 'a) list \<Rightarrow> nat" where
  "next_id tbl = Suc (fold max (map fst tbl) 0)"

fun insert_rows :: "(nat \<times> 'a) list \<Rightarrow> 'a list \<Rightarrow> (nat \<times> 'a) list" where
  "insert_rows tbl [] = tbl"
| "insert_rows tbl (r # rs) = insert_rows (tbl @ [(next_id tbl, r)]) rs"

definition update_rows :: "(nat \<times> 'a) list \<Rightarrow> (nat \<times> 'a) list \<Rightarrow> (nat \<times> 'a) list" where
  "update_rows changed tbl =
     map (\<lambda>(pk, row). (pk, case map_of changed pk of None \<Rightarrow> row | Some row' \<Rightarrow> row')) tbl"

definition flush :: "session \<Rightarrow> tables" where
  "flush s = (stored s)\<lparr>
     devices := insert_rows (update_rows (dirty_devices s) (devices (stored s))) (new_devices s),
     readings := insert_rows (readings (stored s)) (new_readings s),
     alerts := insert_rows (alerts (stored s)) (new_alerts s)\<rparr>"

definition db_rollback :: "session \<Rightarrow> session" where
  "db_rollback s = s\<lparr>new_devices := [], new_readings := [], new_alerts := [], dirty_devices := []\<rparr>"

definition db_commit :: "faults \<Rightarrow> session \<Rightarrow> exn + session" where
  "db_commit fl s =
     (if commit_raises fl then Inl StoreError
      else Inr (db_rollback (s\<lparr>stored := flush s\<rparr>)))"

text \<open>Closing the session (\<^verbatim>\<open>db.close()\<close> in \<^verbatim>\<open>get_db\<close>) leaves what was committed.\<close>

definition db_close :: "session \<Rightarrow> tables" where
  "db_close s = stored s"

section \<open>\<^verbatim>\<open>create_sensor_reading\<close>\<close>

record sensor_reading_create =
  rc_device_id :: string
  rc_reading_type :: string
  rc_reading_data :: "(string \<times> json) list"
  rc_reading_timestamp :: "datetime option"

record sensor_reading_response =
  rr_id :: nat
  rr_device_name :: string
  rr_reading_type :: string
  rr_reading_timestamp :: datetime
  rr_numeric_value :: pynum
  rr_unit :: string
  rr_quality :: string
  rr_is_alert :: bool
  rr_alert_message :: "string option"

text \<open>
  The constructor of the response model validates its fields: \<^verbatim>\<open>numeric_value: float\<close>
  and \<^verbatim>\<open>unit: str\<close> are required and refuse \<^verbatim>\<open>None\<close>; \<^verbatim>\<open>alert_message\<close> is optional.
  The row is passed as the session holds it: how the database's columns coerce a value that
  is not of the column's type (a unit that is not a string) is not modelled, and such a
  unit fails the validation.
\<close>

definition SensorReadingResponse ::
  "nat \<Rightarrow> string \<Rightarrow> string \<Rightarrow> datetime \<Rightarrow> pynum option \<Rightarrow> json option \<Rightarrow> string \<Rightarrow> bool
     \<Rightarrow> string option \<Rightarrow> exn + sensor_reading_response" where
  "SensorReadingResponse ident device_name reading_type reading_timestamp numeric_value unit
       quality is_alert alert_message =
     (case numeric_value of
        None \<Rightarrow> Inl ValidationError
      | Some v \<Rightarrow>
          (case unit of
             Some (JStr u) \<Rightarrow>
               Inr \<lparr>rr_id = ident, rr_device_name = device_name, rr_reading_type = reading_type,
                    rr_reading_timestamp = reading_timestamp, rr_numeric_value = v, rr_unit = u,
                    rr_quality = quality, rr_is_alert = is_alert,
                    rr_alert_message = alert_message\<rparr>
           | _ \<Rightarrow> Inl ValidationError))"

text \<open>The three calls of \<^verbatim>\<open>datetime.utcnow()\<close> in one ingestion, in source order.\<close>

record clock =
  now_reading :: datetime
  now_alert :: datetime
  now_sync :: datetime

text \<open>Lines 102 to 111: the numeric value of a payload.\<close>

definition extract_numeric ::
  "runtime \<Rightarrow> string \<Rightarrow> (string \<times> json) list \<Rightarrow> exn + pynum option" where
  "extract_numeric rt reading_type reading_data =
     (case map_of reading_data ''value'' of
        Some (JNum v) \<Rightarrow> Inr (Some v)
      | _ \<Rightarrow>
          if reading_type = ''blood_pressure'' then
            (case map_of reading_data ''systolic'' of
               Some (JNum (PFloat f)) \<Rightarrow> Inr (Some (PFloat f))
             | Some (JNum (PBool b)) \<Rightarrow> Inr (Some (PFloat (Finite (if b then 1 else 0))))
             | Some (JNum (PInt i)) \<Rightarrow>
                 (case float_of_int rt i of
                    None \<Rightarrow> Inl OverflowError
                  | Some f \<Rightarrow> Inr (Some (PFloat f)))
             | _ \<Rightarrow> Inr None)
          else Inr None)"

text \<open>Line 129: \<^verbatim>\<open>reading_data.get('unit') or ("mmHg" if ... else None)\<close>.\<close>

definition reading_unit :: "string \<Rightarrow> (string \<times> json) list \<Rightarrow> json option" where
  "reading_unit reading_type reading_data =
     (case map_of reading_data ''unit'' of
        Some u \<Rightarrow>
          if truthy_json u then Some u
          else if reading_type = ''blood_pressure'' then Some (JStr ''mmHg'') else None
      | None \<Rightarrow> if reading_type = ''blood_pressure'' then Some (JStr ''mmHg'') else None)"

text \<open>
  The body of the \<^verbatim>\<open>try\<close>: the session as the statement that returned or raised left it,
  and the response or the exception.
\<close>

definition ingest_body ::
  "runtime \<Rightarrow> faults \<Rightarrow> clock \<Rightarrow> sensor_reading_create \<Rightarrow> session
     \<Rightarrow> session \<times> (exn + sensor_reading_response)" where
  "ingest_body rt fl clk reading s =
     (if device_query_raises fl then (s, Inl StoreError)
      else
        (case find (\<lambda>(pk, d). sd_device_id d = rc_device_id reading) (devices (stored s)) of
          None \<Rightarrow> (s, Inl (HTTPException 404 ''Device not found''))
        | Some (device_pk, device) \<Rightarrow>
            if sd_is_active device \<noteq> Some True then
              (s, Inl (HTTPException 400 ''Device is inactive''))
            else
              (case extract_numeric rt (rc_reading_type reading) (rc_reading_data reading) of
                Inl e \<Rightarrow> (s, Inl e)
              | Inr numeric_value \<Rightarrow>
                  (case analyze_reading rt fl (rc_reading_type reading) numeric_value
                         (sd_patient_id device) (stored s) of
                    Inl e \<Rightarrow> (s, Inl e)
                  | Inr (quality, is_alert, alert_severity, alert_message) \<Rightarrow>
                      let db_reading = \<lparr>
                            sr_device_id = device_pk,
                            sr_patient_id = sd_patient_id device,
                            sr_reading_type = rc_reading_type reading,
                            sr_reading_timestamp =
                              (case rc_reading_timestamp reading of
                                 Some ts \<Rightarrow> ts | None \<Rightarrow> now_reading clk),
                            sr_reading_data = rc_reading_data reading,
                            sr_numeric_value = numeric_value,
                            sr_unit = reading_unit (rc_reading_type reading) (rc_reading_data reading),
                            sr_quality = quality,
                            sr_is_alert = is_alert,
                            sr_alert_severity = alert_severity,
                            sr_alert_message = alert_message\<rparr>;
                          s1 = s\<lparr>new_readings := new_readings s @ [db_reading]\<rparr>;
                          s2 = (if is_alert then
                                  s1\<lparr>new_alerts := new_alerts s1 @ [\<lparr>
                                    al_patient_id = sd_patient_id device,
                                    al_sensor_reading_id = None,
                                    al_alert_type =
                                      get_alert_type (rc_reading_type reading) numeric_value,
                                    al_severity = alert_severity,
                                    al_alert_message = alert_message,
                                    al_alert_timestamp = now_alert clk,
                                    al_is_read = False,
                                    al_is_acknowledged = False,
                                    al_acknowledged_by = None,
                                    al_acknowledged_at = None\<rparr>]\<rparr>
                                else s1);
                          s3 = s2\<lparr>dirty_devices := (device_pk,
                                  device\<lparr>sd_last_sync := Some (now_sync clk)\<rparr>) # dirty_devices s2\<rparr>;
                          reading_pk = next_id (readings (stored s3))
                      in
                        (case db_commit fl s3 of
                          Inl e \<Rightarrow> (s3, Inl e)
                        | Inr s4 \<Rightarrow>
                            if refresh_raises fl then (s4, Inl StoreError)
                            else
                              (s4, SensorReadingResponse reading_pk (sd_device_name device)
                                     (sr_reading_type db_reading) (sr_reading_timestamp db_reading)
                                     (sr_numeric_value db_reading) (sr_unit db_reading)
                                     (sr_quality db_reading) (sr_is_alert db_reading)
                                     (sr_alert_message db_reading)))))))"

text \<open>
  The endpoint: an HTTPException passes through, any other exception rolls the session
  back and becomes the 500 response. The result is the store after the request and the
  response or the HTTP error.
\<close>

definition create_sensor_reading ::
  "runtime \<Rightarrow> faults \<Rightarrow> clock \<Rightarrow> sensor_reading_create \<Rightarrow> tables
     \<Rightarrow> tables \<times> (exn + sensor_reading_response)" where
  "create_sensor_reading rt fl clk reading db =
     (case ingest_body rt fl clk reading (open_session db) of
        (s, Inr response) \<Rightarrow> (db_close s, Inr response)
      | (s, Inl (HTTPException code detail)) \<Rightarrow> (db_close s, Inl (HTTPException code detail))
      | (s, Inl e) \<Rightarrow>
          (db_close (db_rollback s),
           Inl (HTTPException 500 (''Error creating reading: '' @ str_exn rt e))))"

section \<open>\<^verbatim>\<open>register_device\<close>\<close>

record device_registration =
  dr_patient_id :: nat
  dr_device_type :: string
  dr_device_name :: string
  dr_manufacturer :: "string option"
  dr_model :: "string option"
  dr_device_id :: string
  dr_mac_address :: "string option"

record device_response =
  dv_id :: nat
  dv_device_type :: string
  dv_device_name :: string
  dv_manufacturer :: string
  dv_model :: string
  dv_device_id :: string
  dv_is_active :: bool
  dv_last_sync :: datetime

text \<open>\<^verbatim>\<open>x or ""\<close> for an optional string.\<close>

definition or_empty :: "string option \<Rightarrow> string" where
  "or_empty x = (case x of None \<Rightarrow> [] | Some v \<Rightarrow> v)"

text \<open>
  The endpoint has no \<^verbatim>\<open>try\<close>: an exception of the store leaves it as it is. The time
  is the one call of \<^verbatim>\<open>datetime.utcnow()\<close>.
\<close>

definition register_device ::
  "faults \<Rightarrow> datetime \<Rightarrow> device_registration \<Rightarrow> tables \<Rightarrow> tables \<times> (exn + device_response)" where
  "register_device fl now device db =
     (let s = open_session db in
      if device_query_raises fl then (db_close s, Inl StoreError)
      else
        (case find (\<lambda>(pk, d). sd_device_id d = dr_device_id device) (devices (stored s)) of
           Some existing \<Rightarrow> (db_close s, Inl (HTTPException 400 ''Device already registered''))
         | None \<Rightarrow>
             if patient_query_raises fl then (db_close s, Inl StoreError)
             else if find (\<lambda>pk. pk = dr_patient_id device) (patients (stored s)) = None then
               (db_close s, Inl (HTTPException 404 ''Patient not found''))
             else
               let db_device = \<lparr>
                     sd_patient_id = dr_patient_id device,
                     sd_device_type = dr_device_type device,
                     sd_device_name = dr_device_name device,
                     sd_manufacturer = dr_manufacturer device,
                     sd_model = dr_model device,
                     sd_device_id = dr_device_id device,
                     sd_mac_address = dr_mac_address device,
                     sd_is_active = Some True,
                     sd_last_sync = Some now\<rparr>;
                   s1 = s\<lparr>new_devices := new_devices s @ [db_device]\<rparr>;
                   device_pk = next_id (devices (stored s1))
               in
                 (case db_commit fl s1 of
                    Inl e \<Rightarrow> (db_close s1, Inl e)
                  | Inr s2 \<Rightarrow>
                      if refresh_raises fl then (db_close s2, Inl StoreError)
                      else
                        (db_close s2,
                         Inr \<lparr>dv_id = device_pk,
                              dv_device_type = sd_device_type db_device,
                              dv_device_name = sd_device_name db_device,
                              dv_manufacturer = or_empty (sd_manufacturer db_device),
                              dv_model = or_empty (sd_model db_device),
                              dv_device_id = sd_device_id db_device,
                              dv_is_active = True,
                              dv_last_sync = now\<rparr>))))"

section \<open>Acknowledging an alert\<close>

datatype ack_error = NotFound

text \<open>
  Modelled from the spec: \<^verbatim>\<open>AcknowledgeAlert(alertId, actor)\<close> of section 4.5. The
  sources hold the columns it writes (\<^verbatim>\<open>is_read\<close>, \<^verbatim>\<open>is_acknowledged\<close>,
  \<^verbatim>\<open>acknowledged_by\<close>, \<^verbatim>\<open>acknowledged_at\<close> of \<^verbatim>\<open>AlertLog\<close>) and no operation that
  writes them. By the spec it sets acknowledged and read, records the actor and the time
  of the acknowledgment, and fails with NotFound when the alert does not exist.
\<close>

definition acknowledge_alert ::
  "nat \<Rightarrow> string \<Rightarrow> datetime \<Rightarrow> tables \<Rightarrow> ack_error + tables \<times> alert_log" where
  "acknowledge_alert alert_id actor now db =
     (case map_of (alerts db) alert_id of
        None \<Rightarrow> Inl NotFound
      | Some a \<Rightarrow>
          let a' = a\<lparr>al_is_acknowledged := True, al_is_read := True,
                     al_acknowledged_by := Some actor, al_acknowledged_at := Some now\<rparr>
          in Inr (db\<lparr>alerts := update_rows [(alert_id, a')] (alerts db)\<rparr>, a'))"

section \<open>The classification table of the specification\<close>

text \<open>
  The bounds of the table of section 4.3, resolved for one patient, and the table as the
  specification words it: the rules apply whenever a numeric value is present, the first
  matching row decides, and a reading that no row matches is good.
\<close>

record threshold_set =
  systolic_max :: pynum
  glucose_max :: pynum
  glucose_min :: pynum
  heart_rate_max :: pynum
  heart_rate_min :: pynum

definition classify_table :: "runtime \<Rightarrow> string \<Rightarrow> pynum option \<Rightarrow> threshold_set \<Rightarrow> analysis" where
  "classify_table rt reading_type value ts =
     (case value of
        None \<Rightarrow> (''good'', False, None, None)
      | Some v \<Rightarrow>
          if reading_type = ''blood_pressure'' \<and> num_gt v (systolic_max ts) then
            (''warning'', True, Some ''warning'',
             Some (''High blood pressure detected: '' @ py_str rt value @ '' mmHg''))
          else if reading_type = ''glucose'' \<and> num_gt v (glucose_max ts) then
            (''critical'', True, Some ''critical'',
             Some (''High glucose level: '' @ py_str rt value @ '' mg/dL''))
          else if reading_type = ''glucose'' \<and> num_lt v (glucose_min ts) then
            (''critical'', True, Some ''critical'',
             Some (''Low glucose level: '' @ py_str rt value @ '' mg/dL''))
          else if reading_type = ''heart_rate'' \<and> num_gt v (heart_rate_max ts) then
            (''warning'', True, Some ''warning'',
             Some (''High heart rate: '' @ py_str rt value @ '' bpm''))
          else if reading_type = ''heart_rate'' \<and> num_lt v (heart_rate_min ts) then
            (''warning'', True, Some ''warning'',
             Some (''Low heart rate: '' @ py_str rt value @ '' bpm''))
          else (''good'', False, None, None))"

text \<open>The defaults of section 4.3.\<close>

definition default_threshold_set :: threshold_set where
  "default_threshold_set = \<lparr>systolic_max = PInt 140, glucose_max = PInt 140,
     glucose_min = PInt 70, heart_rate_max = PInt 100, heart_rate_min = PInt 60\<rparr>"

text \<open>
  A threshold map of the shape the profiles are meant to hold: a dict whose entries are
  dicts.
\<close>

definition nested_map :: "json \<Rightarrow> bool" where
  "nested_map j =
     (case j of
        JObj kvs \<Rightarrow> list_all (\<lambda>(k, v). case v of JObj _ \<Rightarrow> True | _ \<Rightarrow> False) kvs
      | _ \<Rightarrow> False)"

section \<open>Example data\<close>

text \<open>
  A runtime for the examples: \<^verbatim>\<open>float(i)\<close> is exact, as it is on the small integers the
  examples use, and a float with an integral value prints as Python prints it.
\<close>

definition example_runtime :: runtime where
  "example_runtime = \<lparr>
     float_of_int = (\<lambda>i. Some (Finite (of_int i))),
     repr_float = (\<lambda>f. case f of
        Finite r \<Rightarrow> str_int \<lfloor>r\<rfloor> @ ''.0'' | PosInf \<Rightarrow> ''inf'' | NegInf \<Rightarrow> ''-inf'' | NaN \<Rightarrow> ''nan''),
     str_exn = (\<lambda>e. ''error'')\<rparr>"

definition example_clock :: clock where
  "example_clock = \<lparr>now_reading = 1000, now_alert = 1001, now_sync = 1002\<rparr>"

definition glucose_meter :: sensor_device where
  "glucose_meter = \<lparr>sd_patient_id = 7, sd_device_type = ''glucose'', sd_device_name = ''Meter'',
     sd_manufacturer = None, sd_model = None, sd_device_id = ''D1'', sd_mac_address = None,
     sd_is_active = Some True, sd_last_sync = Some 900\<rparr>"

definition retired_cuff :: sensor_device where
  "retired_cuff = \<lparr>sd_patient_id = 7, sd_device_type = ''blood_pressure'', sd_device_name = ''Cuff'',
     sd_manufacturer = None, sd_model = None, sd_device_id = ''D9'', sd_mac_address = None,
     sd_is_active = Some False, sd_last_sync = Some 100\<rparr>"

definition heart_strap :: sensor_device where
  "heart_strap = \<lparr>sd_patient_id = 7, sd_device_type = ''heart_rate'', sd_device_name = ''Strap'',
     sd_manufacturer = None, sd_model = None, sd_device_id = ''D3'', sd_mac_address = None,
     sd_is_active = Some True, sd_last_sync = Some 900\<rparr>"

definition step_tracker :: sensor_device where
  "step_tracker = \<lparr>sd_patient_id = 7, sd_device_type = ''activity'', sd_device_name = ''Tracker'',
     sd_manufacturer = None, sd_model = None, sd_device_id = ''D4'', sd_mac_address = None,
     sd_is_active = Some True, sd_last_sync = Some 900\<rparr>"

definition example_db :: tables where
  "example_db = \<lparr>devices = [(1, glucose_meter), (2, retired_cuff), (3, heart_strap), (4, step_tracker)],
     readings = [], alerts = [], profiles = [], patients = [7]\<rparr>"

text \<open>Patient 7 under a tighter glucose bound than the default.\<close>

definition tight_glucose :: monitoring_profile where
  "tight_glucose = \<lparr>mp_patient_id = 7,
     mp_thresholds = JObj [(''glucose'', JObj [(''max'', JNum (PInt 120)), (''min'', JNum (PInt 70))])]\<rparr>"

definition profiled_db :: tables where
  "profiled_db = example_db\<lparr>profiles := [(1, tight_glucose)]\<rparr>"

definition glucose_180 :: sensor_reading_create where
  "glucose_180 = \<lparr>rc_device_id = ''D1'', rc_reading_type = ''glucose'',
     rc_reading_data = [(''value'', JNum (PInt 180)), (''unit'', JStr ''mg/dL'')],
     rc_reading_timestamp = None\<rparr>"

definition glucose_130 :: sensor_reading_create where
  "glucose_130 = \<lparr>rc_device_id = ''D1'', rc_reading_type = ''glucose'',
     rc_reading_data = [(''value'', JNum (PInt 130)), (''unit'', JStr ''mg/dL'')],
     rc_reading_timestamp = None\<rparr>"

definition heart_rate_0 :: sensor_reading_create where
  "heart_rate_0 = \<lparr>rc_device_id = ''D3'', rc_reading_type = ''heart_rate'',
     rc_reading_data = [(''value'', JNum (PInt 0)), (''unit'', JStr ''bpm'')],
     rc_reading_timestamp = None\<rparr>"

definition activity_steps :: sensor_reading_create where
  "activity_steps = \<lparr>rc_device_id = ''D4'', rc_reading_type = ''activity'',
     rc_reading_data = [(''steps'', JNum (PInt 4200)), (''unit'', JStr ''steps'')],
     rc_reading_timestamp = None\<rparr>"

definition cuff_150 :: sensor_reading_create where
  "cuff_150 = \<lparr>rc_device_id = ''D9'', rc_reading_type = ''blood_pressure'',
     rc_reading_data = [(''systolic'', JNum (PInt 150))], rc_reading_timestamp = None\<rparr>"

definition unknown_device_reading :: sensor_reading_create where
  "unknown_device_reading = \<lparr>rc_device_id = ''D404'', rc_reading_type = ''glucose'',
     rc_reading_data = [(''value'', JNum (PInt 180))], rc_reading_timestamp = None\<rparr>"

definition duplicate_registration :: device_registration where
  "duplicate_registration = \<lparr>dr_patient_id = 99, dr_device_type = ''glucose'',
     dr_device_name = ''Second meter'', dr_manufacturer = None, dr_model = None,
     dr_device_id = ''D1'', dr_mac_address = None\<rparr>"

definition new_registration :: device_registration where
  "new_registration = \<lparr>dr_patient_id = 7, dr_device_type = ''heart_rate'',
     dr_device_name = ''Spare strap'', dr_manufacturer = Some ''Acme'', dr_model = None,
     dr_device_id = ''D7'', dr_mac_address = None\<rparr>"

definition unread_alert :: alert_log where
  "unread_alert = \<lparr>al_patient_id = 7, al_sensor_reading_id = None, al_alert_type = ''high_glucose'',
     al_severity = Some ''critical'', al_alert_message = Some ''High glucose level: 180 mg/dL'',
     al_alert_timestamp = 1001, al_is_read = False, al_is_acknowledged = False,
     al_acknowledged_by = None, al_acknowledged_at = None\<rparr>"

definition alerted_db :: tables where
  "alerted_db = example_db\<lparr>alerts := [(1, unread_alert)]\<rparr>"

section \<open>Helper facts\<close>

lemmas store_defs = open_session_def db_close_def db_rollback_def db_commit_def flush_def
  update_rows_def next_id_def

lemmas example_defs = example_runtime_def example_clock_def glucose_meter_def retired_cuff_def
  heart_strap_def step_tracker_def example_db_def tight_glucose_def profiled_db_def glucose_180_def
  glucose_130_def heart_rate_0_def
  activity_steps_def cuff_150_def unknown_device_reading_def duplicate_registration_def
  new_registration_def unread_alert_def alerted_db_def no_faults_def

lemma zero_not_truthy: "num_val v = Finite 0 \<Longrightarrow> \<not> truthy_num v"
  by (cases v) (auto split: if_splits)

lemma threshold_get_absent:
  "map_of kvs t = None \<Longrightarrow> threshold_get (JObj kvs) t k d = Inr (JNum (PInt d))"
  by (simp add: threshold_get_def)

lemma threshold_get_no_bound:
  "map_of kvs t = Some (JObj es) \<Longrightarrow> map_of es k = None \<Longrightarrow>
   threshold_get (JObj kvs) t k d = Inr (JNum (PInt d))"
  by (simp add: threshold_get_def)

lemma nested_map_entry:
  "list_all (\<lambda>(k, v). case v of JObj _ \<Rightarrow> True | _ \<Rightarrow> False) kvs \<Longrightarrow> map_of kvs t = Some e
     \<Longrightarrow> \<exists>es. e = JObj es"
  by (induction kvs) (auto split: json.splits if_splits)

lemma threshold_get_total: "nested_map j \<Longrightarrow> \<exists>x. threshold_get j t k d = Inr x"
  unfolding nested_map_def threshold_get_def
  by (auto split: json.splits option.splits dest: nested_map_entry)

lemma update_rows_Nil: "update_rows [] tbl = tbl"
  by (induction tbl) (auto simp: update_rows_def)

lemma map_of_update_rows:
  "map_of tbl k = Some r \<Longrightarrow> map_of (update_rows [(k, r')] tbl) k = Some r'"
  by (induction tbl) (auto simp: update_rows_def)

text \<open>What a request leaves in the store is what its session has committed.\<close>

lemma create_sensor_reading_store:
  "fst (create_sensor_reading rt fl clk reading db) =
     stored (fst (ingest_body rt fl clk reading (open_session db)))"
  by (simp add: create_sensor_reading_def db_close_def db_rollback_def
        split: prod.splits sum.splits exn.splits)

text \<open>Every way the body ends before a successful commit leaves the store as it was.\<close>

lemma ingest_body_nothing:
  "device_query_raises fl \<or>
   find (\<lambda>(pk, d). sd_device_id d = rc_device_id reading) (devices db) = None \<or>
   (\<exists>pk d. find (\<lambda>(pk, d). sd_device_id d = rc_device_id reading) (devices db) = Some (pk, d) \<and>
      (sd_is_active d \<noteq> Some True \<or>
       (\<exists>e. extract_numeric rt (rc_reading_type reading) (rc_reading_data reading) = Inl e) \<or>
       (\<exists>nv e. extract_numeric rt (rc_reading_type reading) (rc_reading_data reading) = Inr nv \<and>
           analyze_reading rt fl (rc_reading_type reading) nv (sd_patient_id d) db = Inl e))) \<or>
   commit_raises fl \<Longrightarrow>
   stored (fst (ingest_body rt fl clk reading (open_session db))) = db"
  unfolding ingest_body_def
  by (auto simp: open_session_def db_commit_def Let_def split: option.splits sum.splits prod.splits)

lemma ingest_body_profile_failure:
  "profile_query_raises fl \<Longrightarrow>
   stored (fst (ingest_body rt fl clk reading (open_session db))) = db"
  unfolding ingest_body_def
  by (auto simp: open_session_def analyze_reading_def Let_def
        split: option.splits sum.splits prod.splits)

text \<open>A successful commit writes the reading, the alert when there is one and the device.\<close>

lemma ingest_body_everything:
  assumes "\<not> device_query_raises fl"
    and "find (\<lambda>(pk, d). sd_device_id d = rc_device_id reading) (devices db) = Some (device_pk, device)"
    and "sd_is_active device = Some True"
    and "extract_numeric rt (rc_reading_type reading) (rc_reading_data reading) = Inr nv"
    and "analyze_reading rt fl (rc_reading_type reading) nv (sd_patient_id device) db =
           Inr (q, ia, sev, msg)"
    and "\<not> commit_raises fl"
  shows "stored (fst (ingest_body rt fl clk reading (open_session db))) =
    db\<lparr>devices := update_rows [(device_pk, device\<lparr>sd_last_sync := Some (now_sync clk)\<rparr>)] (devices db),
       readings := readings db @ [(next_id (readings db),
         \<lparr>sr_device_id = device_pk, sr_patient_id = sd_patient_id device,
          sr_reading_type = rc_reading_type reading,
          sr_reading_timestamp =
            (case rc_reading_timestamp reading of Some ts \<Rightarrow> ts | None \<Rightarrow> now_reading clk),
          sr_reading_data = rc_reading_data reading, sr_numeric_value = nv,
          sr_unit = reading_unit (rc_reading_type reading) (rc_reading_data reading),
          sr_quality = q, sr_is_alert = ia, sr_alert_severity = sev, sr_alert_message = msg\<rparr>)],
       alerts := (if ia then alerts db @ [(next_id (alerts db),
         \<lparr>al_patient_id = sd_patient_id device, al_sensor_reading_id = None,
          al_alert_type = get_alert_type (rc_reading_type reading) nv,
          al_severity = sev, al_alert_message = msg, al_alert_timestamp = now_alert clk,
          al_is_read = False, al_is_acknowledged = False, al_acknowledged_by = None,
          al_acknowledged_at = None\<rparr>)] else alerts db)\<rparr>"
  using assms unfolding ingest_body_def
  by (simp add: open_session_def db_commit_def db_rollback_def flush_def Let_def)

lemma ingest_body_all_or_nothing:
  "stored (fst (ingest_body rt fl clk reading (open_session db))) = db \<or>
   (\<exists>device_pk device r a.
      find (\<lambda>(pk, d). sd_device_id d = rc_device_id reading) (devices db) = Some (device_pk, device) \<and>
      al_severity a = sr_alert_severity r \<and> al_alert_message a = sr_alert_message r \<and>
      \<not> al_is_read a \<and> \<not> al_is_acknowledged a \<and>
      stored (fst (ingest_body rt fl clk reading (open_session db))) =
        db\<lparr>devices := update_rows [(device_pk, device\<lparr>sd_last_sync := Some (now_sync clk)\<rparr>)] (devices db),
           readings := readings db @ [(next_id (readings db), r)],
           alerts := (if sr_is_alert r then alerts db @ [(next_id (alerts db), a)] else alerts db)\<rparr>)"
    (is "?none \<or> ?all")
proof (cases "device_query_raises fl \<or> commit_raises fl")
  case True
  then show ?thesis using ingest_body_nothing[of fl reading db rt clk] by blast
next
  case ok: False
  show ?thesis
  proof (cases "find (\<lambda>(pk, d). sd_device_id d = rc_device_id reading) (devices db)")
    case None
    then show ?thesis using ingest_body_nothing[of fl reading db rt clk] by blast
  next
    case (Some found)
    obtain device_pk device where found: "found = (device_pk, device)" by (cases found)
    show ?thesis
    proof (cases "sd_is_active device = Some True")
      case False
      then show ?thesis using ingest_body_nothing[of fl reading db rt clk] Some found by blast
    next
      case active: True
      show ?thesis
      proof (cases "extract_numeric rt (rc_reading_type reading) (rc_reading_data reading)")
        case (Inl e)
        then show ?thesis using ingest_body_nothing[of fl reading db rt clk] Some found by blast
      next
        case (Inr nv)
        show ?thesis
        proof (cases "analyze_reading rt fl (rc_reading_type reading) nv (sd_patient_id device) db")
          case (Inl e)
          then show ?thesis
            using ingest_body_nothing[of fl reading db rt clk] Some found Inr by blast
        next
          case res: (Inr result)
          obtain q ia sev msg where result: "result = (q, ia, sev, msg)" by (cases result)
          define r where "r = \<lparr>sr_device_id = device_pk, sr_patient_id = sd_patient_id device,
            sr_reading_type = rc_reading_type reading,
            sr_reading_timestamp =
              (case rc_reading_timestamp reading of Some ts \<Rightarrow> ts | None \<Rightarrow> now_reading clk),
            sr_reading_data = rc_reading_data reading, sr_numeric_value = nv,
            sr_unit = reading_unit (rc_reading_type reading) (rc_reading_data reading),
            sr_quality = q, sr_is_alert = ia, sr_alert_severity = sev, sr_alert_message = msg\<rparr>"
          define a where "a = \<lparr>al_patient_id = sd_patient_id device, al_sensor_reading_id = None,
            al_alert_type = get_alert_type (rc_reading_type reading) nv,
            al_severity = sev, al_alert_message = msg, al_alert_timestamp = now_alert clk,
            al_is_read = False, al_is_acknowledged = False, al_acknowledged_by = None,
            al_acknowledged_at = None\<rparr>"
          have "stored (fst (ingest_body rt fl clk reading (open_session db))) =
            db\<lparr>devices := update_rows [(device_pk, device\<lparr>sd_last_sync := Some (now_sync clk)\<rparr>)] (devices db),
               readings := readings db @ [(next_id (readings db), r)],
               alerts := (if sr_is_alert r then alerts db @ [(next_id (alerts db), a)] else alerts db)\<rparr>"
            using ok Some found active Inr res result
              ingest_body_everything[of fl reading db device_pk device rt nv q ia sev msg clk]
            by (simp add: r_def a_def)
          moreover have "al_severity a = sr_alert_severity r" "al_alert_message a = sr_alert_message r"
            "\<not> al_is_read a" "\<not> al_is_acknowledged a"
            by (simp_all add: r_def a_def)
          ultimately have "?all" using Some found by blast
          then show ?thesis ..
        qed
      qed
    qed
  qed
qed

text \<open>
  With numeric bounds, \<^verbatim>\<open>_analyze_reading\<close> computes the table of the specification on
  every value that is absent or not zero.
\<close>

lemma analyze_reading_follows_table:
  assumes "\<not> profile_query_raises fl"
    and "value = None \<or> truthy_value value"
    and "th = resolve_thresholds
           (map_option snd (find (\<lambda>(pk, p). mp_patient_id p = patient_id) (profiles db)))"
    and "threshold_get th ''blood_pressure'' ''systolic_max'' 140 = Inr (JNum (systolic_max ts))"
    and "threshold_get th ''glucose'' ''max'' 140 = Inr (JNum (glucose_max ts))"
    and "threshold_get th ''glucose'' ''min'' 70 = Inr (JNum (glucose_min ts))"
    and "threshold_get th ''heart_rate'' ''max'' 100 = Inr (JNum (heart_rate_max ts))"
    and "threshold_get th ''heart_rate'' ''min'' 60 = Inr (JNum (heart_rate_min ts))"
  shows "analyze_reading rt fl reading_type value patient_id db =
           Inr (classify_table rt reading_type value ts)"
proof (cases "value")
  case None
  then show ?thesis using assms(1) by (simp add: analyze_reading_def classify_table_def)
next
  case (Some v)
  then have "truthy_num v" using assms(2) by simp
  then show ?thesis using assms(1,3-8) Some
    by (simp add: analyze_reading_def classify_table_def bind_exn_def Let_def)
qed

section \<open>Ingestion: rejected devices and atomicity\<close>

text \<open>
  Claim C4. When the device lookup answers, a reading for a device whose activation flag
  is not true (false, or never set) is refused with 400 "Device is inactive", and a reading
  for a device id that is not registered is refused with 404 "Device not found"; in both
  cases the store after the request is the store before it, so no reading and no alert is
  created.
\<close>

theorem inactive_or_unknown_device_rejected:
  "(\<forall>pk d. \<not> device_query_raises fl \<longrightarrow>
      find (\<lambda>(pk, d). sd_device_id d = rc_device_id reading) (devices db) = Some (pk, d) \<longrightarrow>
      sd_is_active d \<noteq> Some True \<longrightarrow>
      create_sensor_reading rt fl clk reading db =
        (db, Inl (HTTPException 400 ''Device is inactive''))) \<and>
   (\<not> device_query_raises fl \<longrightarrow>
      find (\<lambda>(pk, d). sd_device_id d = rc_device_id reading) (devices db) = None \<longrightarrow>
      create_sensor_reading rt fl clk reading db =
        (db, Inl (HTTPException 404 ''Device not found'')))"
  by (simp add: create_sensor_reading_def ingest_body_def open_session_def db_close_def)

theorem inactive_or_unknown_device_rejected_witness:
  "\<not> device_query_raises no_faults \<and>
   find (\<lambda>(pk, d). sd_device_id d = rc_device_id cuff_150) (devices example_db) =
     Some (2, retired_cuff) \<and>
   sd_is_active retired_cuff \<noteq> Some True \<and>
   create_sensor_reading example_runtime no_faults example_clock cuff_150 example_db =
     (example_db, Inl (HTTPException 400 ''Device is inactive'')) \<and>
   find (\<lambda>(pk, d). sd_device_id d = rc_device_id unknown_device_reading) (devices example_db) = None \<and>
   create_sensor_reading example_runtime no_faults example_clock unknown_device_reading example_db =
     (example_db, Inl (HTTPException 404 ''Device not found''))"
proof -
  have a: "\<not> device_query_raises no_faults" by (simp add: no_faults_def)
  have b: "find (\<lambda>(pk, d). sd_device_id d = rc_device_id cuff_150) (devices example_db) =
     Some (2, retired_cuff)"
    by (simp add: example_db_def cuff_150_def glucose_meter_def retired_cuff_def heart_strap_def
          step_tracker_def)
  have c: "sd_is_active retired_cuff \<noteq> Some True" by (simp add: retired_cuff_def)
  have d: "find (\<lambda>(pk, d). sd_device_id d = rc_device_id unknown_device_reading)
     (devices example_db) = None"
    by (simp add: example_db_def unknown_device_reading_def glucose_meter_def retired_cuff_def
          heart_strap_def step_tracker_def)
  show ?thesis
    using a b c d
      inactive_or_unknown_device_rejected[of no_faults cuff_150 example_db example_runtime example_clock]
      inactive_or_unknown_device_rejected[of no_faults unknown_device_reading example_db
        example_runtime example_clock]
    by blast
qed

text \<open>
  Claim C3. The store after an ingestion is either the store before it, or the store
  before it with all three changes together: the new reading, the alert when the reading
  is an alert (and no alert when it is not), and the last contact of the device. Whenever
  the device lookup, the profile query or the commit raises, the store is the store before
  the request. The alert carries the severity and the message of the reading and is unread
  and unacknowledged.
\<close>

theorem ingestion_all_or_nothing:
  "(fst (create_sensor_reading rt fl clk reading db) = db \<or>
    (\<exists>device_pk device r a.
       find (\<lambda>(pk, d). sd_device_id d = rc_device_id reading) (devices db) = Some (device_pk, device) \<and>
       al_severity a = sr_alert_severity r \<and> al_alert_message a = sr_alert_message r \<and>
       \<not> al_is_read a \<and> \<not> al_is_acknowledged a \<and>
       fst (create_sensor_reading rt fl clk reading db) =
         db\<lparr>devices := update_rows [(device_pk, device\<lparr>sd_last_sync := Some (now_sync clk)\<rparr>)] (devices db),
            readings := readings db @ [(next_id (readings db), r)],
            alerts := (if sr_is_alert r then alerts db @ [(next_id (alerts db), a)] else alerts db)\<rparr>)) \<and>
   (device_query_raises fl \<or> profile_query_raises fl \<or> commit_raises fl \<longrightarrow>
      fst (create_sensor_reading rt fl clk reading db) = db)"
proof
  show "fst (create_sensor_reading rt fl clk reading db) = db \<or>
    (\<exists>device_pk device r a.
       find (\<lambda>(pk, d). sd_device_id d = rc_device_id reading) (devices db) = Some (device_pk, device) \<and>
       al_severity a = sr_alert_severity r \<and> al_alert_message a = sr_alert_message r \<and>
       \<not> al_is_read a \<and> \<not> al_is_acknowledged a \<and>
       fst (create_sensor_reading rt fl clk reading db) =
         db\<lparr>devices := update_rows [(device_pk, device\<lparr>sd_last_sync := Some (now_sync clk)\<rparr>)] (devices db),
            readings := readings db @ [(next_id (readings db), r)],
            alerts := (if sr_is_alert r then alerts db @ [(next_id (alerts db), a)] else alerts db)\<rparr>)"
    unfolding create_sensor_reading_store by (rule ingest_body_all_or_nothing)
  show "device_query_raises fl \<or> profile_query_raises fl \<or> commit_raises fl \<longrightarrow>
      fst (create_sensor_reading rt fl clk reading db) = db"
    unfolding create_sensor_reading_store
    using ingest_body_nothing[of fl reading db rt clk]
      ingest_body_profile_failure[of fl rt clk reading db]
    by blast
qed

theorem ingestion_all_or_nothing_witness:
  "commit_raises (no_faults\<lparr>commit_raises := True\<rparr>) \<and>
   fst (create_sensor_reading example_runtime (no_faults\<lparr>commit_raises := True\<rparr>) example_clock
          glucose_180 example_db) = example_db"
  using ingestion_all_or_nothing[of example_runtime "no_faults\<lparr>commit_raises := True\<rparr>"
      example_clock glucose_180 example_db]
  by simp

section \<open>Threshold resolution\<close>

text \<open>
  Claim C8. Resolving a bound is the function \<^verbatim>\<open>thresholds.get(t, {}).get(k, d)\<close> of the
  profile found and of the reading type, with no other input. For a patient without a
  profile the glucose bounds are the defaults, max 140 and min 70 (and 140 for the systolic
  bound, 100 and 60 for the heart rate). For a profile whose threshold map has no entry for
  the reading type, or an entry without the bound, the bound is the default the call names.
  On a threshold map that is a dict of dicts, and so on the defaults, the resolution
  returns a value and raises nothing.
\<close>

theorem threshold_resolution_defaults:
  "threshold_get (resolve_thresholds None) ''glucose'' ''max'' 140 = Inr (JNum (PInt 140)) \<and>
   threshold_get (resolve_thresholds None) ''glucose'' ''min'' 70 = Inr (JNum (PInt 70)) \<and>
   threshold_get (resolve_thresholds None) ''blood_pressure'' ''systolic_max'' 140 = Inr (JNum (PInt 140)) \<and>
   threshold_get (resolve_thresholds None) ''heart_rate'' ''max'' 100 = Inr (JNum (PInt 100)) \<and>
   threshold_get (resolve_thresholds None) ''heart_rate'' ''min'' 60 = Inr (JNum (PInt 60)) \<and>
   (\<forall>kvs. mp_thresholds p = JObj kvs \<longrightarrow> map_of kvs t = None \<longrightarrow>
      threshold_get (resolve_thresholds (Some p)) t k d = Inr (JNum (PInt d))) \<and>
   (\<forall>kvs es. mp_thresholds p = JObj kvs \<longrightarrow> map_of kvs t = Some (JObj es) \<longrightarrow>
      map_of es k = None \<longrightarrow>
      threshold_get (resolve_thresholds (Some p)) t k d = Inr (JNum (PInt d))) \<and>
   (nested_map (resolve_thresholds profile) \<longrightarrow>
      (\<exists>x. threshold_get (resolve_thresholds profile) t k d = Inr x)) \<and>
   nested_map (resolve_thresholds None)"
proof -
  have none: "resolve_thresholds None = default_thresholds"
    by (simp add: resolve_thresholds_def)
  have "threshold_get default_thresholds ''glucose'' ''max'' 140 = Inr (JNum (PInt 140))"
    "threshold_get default_thresholds ''glucose'' ''min'' 70 = Inr (JNum (PInt 70))"
    "threshold_get default_thresholds ''blood_pressure'' ''systolic_max'' 140 = Inr (JNum (PInt 140))"
    "threshold_get default_thresholds ''heart_rate'' ''max'' 100 = Inr (JNum (PInt 100))"
    "threshold_get default_thresholds ''heart_rate'' ''min'' 60 = Inr (JNum (PInt 60))"
    by (simp_all add: threshold_get_def default_thresholds_def)
  moreover have "\<forall>kvs. mp_thresholds p = JObj kvs \<longrightarrow> map_of kvs t = None \<longrightarrow>
      threshold_get (resolve_thresholds (Some p)) t k d = Inr (JNum (PInt d))"
    by (simp add: resolve_thresholds_def threshold_get_absent)
  moreover have "\<forall>kvs es. mp_thresholds p = JObj kvs \<longrightarrow> map_of kvs t = Some (JObj es) \<longrightarrow>
      map_of es k = None \<longrightarrow>
      threshold_get (resolve_thresholds (Some p)) t k d = Inr (JNum (PInt d))"
    by (simp add: resolve_thresholds_def threshold_get_no_bound)
  moreover have "nested_map (resolve_thresholds profile) \<longrightarrow>
      (\<exists>x. threshold_get (resolve_thresholds profile) t k d = Inr x)"
    using threshold_get_total by blast
  moreover have "nested_map default_thresholds"
    by (simp add: nested_map_def default_thresholds_def)
  ultimately show ?thesis unfolding none by blast
qed

theorem threshold_resolution_defaults_witness:
  "mp_thresholds tight_glucose =
     JObj [(''glucose'', JObj [(''max'', JNum (PInt 120)), (''min'', JNum (PInt 70))])] \<and>
   map_of [(''glucose'', JObj [(''max'', JNum (PInt 120)), (''min'', JNum (PInt 70))])] ''heart_rate'' = None \<and>
   threshold_get (resolve_thresholds (Some tight_glucose)) ''heart_rate'' ''max'' 100 =
     Inr (JNum (PInt 100)) \<and>
   nested_map (resolve_thresholds (Some tight_glucose)) \<and>
   (\<exists>x. threshold_get (resolve_thresholds (Some tight_glucose)) ''glucose'' ''max'' 140 = Inr x)"
proof -
  have a: "mp_thresholds tight_glucose =
     JObj [(''glucose'', JObj [(''max'', JNum (PInt 120)), (''min'', JNum (PInt 70))])]"
    by (simp add: tight_glucose_def)
  have b: "map_of [(''glucose'', JObj [(''max'', JNum (PInt 120)), (''min'', JNum (PInt 70))])]
     ''heart_rate'' = None"
    by simp
  have c: "nested_map (resolve_thresholds (Some tight_glucose))"
    by (simp add: nested_map_def resolve_thresholds_def tight_glucose_def)
  show ?thesis
    using a b c
      threshold_resolution_defaults[of tight_glucose "''heart_rate''" "''max''" 100 "Some tight_glucose"]
      threshold_resolution_defaults[of tight_glucose "''glucose''" "''max''" 140 "Some tight_glucose"]
    by blast
qed

section \<open>The value zero\<close>

text \<open>
  Claim C9. When the profile query answers, a reading whose numeric value equals zero
  (the integer 0, the float 0.0 or \<^verbatim>\<open>False\<close>) is classified good with no alert, no severity
  and no message, for every reading type and every stored profile: each branch of
  \<^verbatim>\<open>_analyze_reading\<close> is guarded by the truth value of the number.
\<close>

theorem zero_value_is_good:
  "\<not> profile_query_raises fl \<Longrightarrow> num_val v = Finite 0 \<Longrightarrow>
   analyze_reading rt fl reading_type (Some v) patient_id db = Inr (''good'', False, None, None)"
  by (simp add: analyze_reading_def zero_not_truthy)

theorem zero_value_is_good_witness:
  "\<not> profile_query_raises no_faults \<and> num_val (PInt 0) = Finite 0 \<and>
   analyze_reading example_runtime no_faults ''heart_rate'' (Some (PInt 0)) 7 example_db =
     Inr (''good'', False, None, None)"
proof -
  have a: "\<not> profile_query_raises no_faults" by (simp add: no_faults_def)
  have b: "num_val (PInt 0) = Finite 0" by simp
  show ?thesis
    using a b zero_value_is_good[OF a b, of example_runtime "''heart_rate''" 7 example_db] by simp
qed

section \<open>Device registration\<close>

text \<open>
  Claim C10. \<^verbatim>\<open>register_device\<close> looks for the device id before it looks for the
  patient. When the device lookup answers and the device id is already registered, the
  result is 400 "Device already registered" and the store is unchanged, whether or not the
  patient exists. A 404 of the endpoint means that the device id is new and the patient is
  missing. A successful registration stores one new device, active and with the
  registration time as its last contact, and answers with it; with no failure of the
  store, a new device id and an existing patient, the registration succeeds.
\<close>

theorem register_device_checks_duplicate_first:
  "(\<forall>e. \<not> device_query_raises fl \<longrightarrow>
      find (\<lambda>(pk, d). sd_device_id d = dr_device_id device) (devices db) = Some e \<longrightarrow>
      register_device fl now device db =
        (db, Inl (HTTPException 400 ''Device already registered''))) \<and>
   (\<forall>db' detail. register_device fl now device db = (db', Inl (HTTPException 404 detail)) \<longrightarrow>
      find (\<lambda>(pk, d). sd_device_id d = dr_device_id device) (devices db) = None \<and>
      find (\<lambda>pk. pk = dr_patient_id device) (patients db) = None \<and> db' = db) \<and>
   (\<forall>db' resp. register_device fl now device db = (db', Inr resp) \<longrightarrow>
      (\<exists>d. db' = db\<lparr>devices := devices db @ [(next_id (devices db), d)]\<rparr> \<and>
           sd_is_active d = Some True \<and> sd_last_sync d = Some now \<and>
           sd_device_id d = dr_device_id device \<and> sd_patient_id d = dr_patient_id device) \<and>
      dv_is_active resp \<and> dv_last_sync resp = now \<and> dv_id resp = next_id (devices db)) \<and>
   (\<not> device_query_raises fl \<and> \<not> patient_query_raises fl \<and> \<not> commit_raises fl \<and>
    \<not> refresh_raises fl \<longrightarrow>
      find (\<lambda>(pk, d). sd_device_id d = dr_device_id device) (devices db) = None \<longrightarrow>
      find (\<lambda>pk. pk = dr_patient_id device) (patients db) \<noteq> None \<longrightarrow>
      (\<exists>db' resp. register_device fl now device db = (db', Inr resp)))"
proof (intro conjI allI impI)
  fix e
  assume "\<not> device_query_raises fl"
    and "find (\<lambda>(pk, d). sd_device_id d = dr_device_id device) (devices db) = Some e"
  then show "register_device fl now device db =
      (db, Inl (HTTPException 400 ''Device already registered''))"
    by (simp add: register_device_def open_session_def db_close_def)
next
  fix db' detail
  assume r: "register_device fl now device db = (db', Inl (HTTPException 404 detail))"
  then show "find (\<lambda>(pk, d). sd_device_id d = dr_device_id device) (devices db) = None"
    by (auto simp: register_device_def open_session_def db_close_def db_commit_def Let_def
          split: if_splits option.splits)
  from r show "find (\<lambda>pk. pk = dr_patient_id device) (patients db) = None"
    by (auto simp: register_device_def open_session_def db_close_def db_commit_def Let_def
          split: if_splits option.splits)
  from r show "db' = db"
    by (auto simp: register_device_def open_session_def db_close_def db_commit_def Let_def
          split: if_splits option.splits)
next
  fix db' resp
  assume r: "register_device fl now device db = (db', Inr resp)"
  then show "\<exists>d. db' = db\<lparr>devices := devices db @ [(next_id (devices db), d)]\<rparr> \<and>
           sd_is_active d = Some True \<and> sd_last_sync d = Some now \<and>
           sd_device_id d = dr_device_id device \<and> sd_patient_id d = dr_patient_id device"
    by (auto simp: register_device_def open_session_def db_close_def db_commit_def db_rollback_def
          flush_def update_rows_Nil Let_def split: if_splits option.splits)
  from r show "dv_is_active resp"
    by (auto simp: register_device_def open_session_def db_close_def db_commit_def db_rollback_def
          flush_def update_rows_Nil Let_def split: if_splits option.splits)
  from r show "dv_last_sync resp = now"
    by (auto simp: register_device_def open_session_def db_close_def db_commit_def db_rollback_def
          flush_def update_rows_Nil Let_def split: if_splits option.splits)
  from r show "dv_id resp = next_id (devices db)"
    by (auto simp: register_device_def open_session_def db_close_def db_commit_def db_rollback_def
          flush_def update_rows_Nil Let_def split: if_splits option.splits)
next
  assume "\<not> device_query_raises fl \<and> \<not> patient_query_raises fl \<and> \<not> commit_raises fl \<and>
    \<not> refresh_raises fl"
    and "find (\<lambda>(pk, d). sd_device_id d = dr_device_id device) (devices db) = None"
    and "find (\<lambda>pk. pk = dr_patient_id device) (patients db) \<noteq> None"
  then show "\<exists>db' resp. register_device fl now device db = (db', Inr resp)"
    by (simp add: register_device_def open_session_def db_close_def db_commit_def Let_def)
qed

theorem register_device_checks_duplicate_first_witness:
  "\<not> device_query_raises no_faults \<and>
   find (\<lambda>(pk, d). sd_device_id d = dr_device_id duplicate_registration) (devices example_db) =
     Some (1, glucose_meter) \<and>
   find (\<lambda>pk. pk = dr_patient_id duplicate_registration) (patients example_db) = None \<and>
   register_device no_faults 2000 duplicate_registration example_db =
     (example_db, Inl (HTTPException 400 ''Device already registered'')) \<and>
   find (\<lambda>(pk, d). sd_device_id d = dr_device_id new_registration) (devices example_db) = None \<and>
   find (\<lambda>pk. pk = dr_patient_id new_registration) (patients example_db) = Some 7 \<and>
   (\<exists>db' resp. register_device no_faults 2000 new_registration example_db = (db', Inr resp) \<and>
      dv_is_active resp \<and> dv_last_sync resp = 2000)"
proof -
  have a: "\<not> device_query_raises no_faults \<and> \<not> patient_query_raises no_faults \<and>
      \<not> commit_raises no_faults \<and> \<not> refresh_raises no_faults"
    by (simp add: no_faults_def)
  have b: "find (\<lambda>(pk, d). sd_device_id d = dr_device_id duplicate_registration) (devices example_db) =
     Some (1, glucose_meter)"
    by (simp add: example_db_def duplicate_registration_def glucose_meter_def)
  have c: "find (\<lambda>pk. pk = dr_patient_id duplicate_registration) (patients example_db) = None"
    by (simp add: example_db_def duplicate_registration_def)
  have d: "find (\<lambda>(pk, d). sd_device_id d = dr_device_id new_registration) (devices example_db) = None"
    by (simp add: example_db_def new_registration_def glucose_meter_def retired_cuff_def
          heart_strap_def step_tracker_def)
  have e: "find (\<lambda>pk. pk = dr_patient_id new_registration) (patients example_db) = Some 7"
    by (simp add: example_db_def new_registration_def)
  note dup = register_device_checks_duplicate_first[of no_faults duplicate_registration example_db 2000]
  note new = register_device_checks_duplicate_first[of no_faults new_registration example_db 2000]
  have "register_device no_faults 2000 duplicate_registration example_db =
     (example_db, Inl (HTTPException 400 ''Device already registered''))"
    using a b dup by blast
  moreover have "\<exists>db' resp. register_device no_faults 2000 new_registration example_db = (db', Inr resp) \<and>
      dv_is_active resp \<and> dv_last_sync resp = 2000"
  proof -
    from a d e new obtain db' resp
      where r: "register_device no_faults 2000 new_registration example_db = (db', Inr resp)"
      by auto
    with new have "dv_is_active resp \<and> dv_last_sync resp = 2000" by blast
    with r show ?thesis by blast
  qed
  ultimately show ?thesis using a b c d e by blast
qed

section \<open>Acknowledging an alert: the contract of the specification\<close>

text \<open>
  Claim C6. On the operation as the specification states it: acknowledging an alert id
  that is not stored fails with NotFound. Acknowledging a stored alert succeeds, sets
  acknowledged and read, records the actor and the time, and changes nothing else of the
  alert. Acknowledging it again, by any actor at any time, succeeds as well, and the alert
  it returns differs from the one acknowledged before only in the acknowledger and the
  time of the acknowledgment; devices and readings stay as they are.
\<close>

theorem acknowledge_alert_contract:
  "(map_of (alerts db) alert_id = None \<longrightarrow> acknowledge_alert alert_id actor now db = Inl NotFound) \<and>
   (\<forall>a. map_of (alerts db) alert_id = Some a \<longrightarrow>
      (\<exists>db1 a1. acknowledge_alert alert_id actor now db = Inr (db1, a1) \<and>
         al_is_acknowledged a1 \<and> al_is_read a1 \<and>
         al_acknowledged_by a1 = Some actor \<and> al_acknowledged_at a1 = Some now \<and>
         a1 = a\<lparr>al_is_acknowledged := True, al_is_read := True,
                al_acknowledged_by := Some actor, al_acknowledged_at := Some now\<rparr> \<and>
         map_of (alerts db1) alert_id = Some a1 \<and>
         (\<exists>db2 a2. acknowledge_alert alert_id actor' now' db1 = Inr (db2, a2) \<and>
            a2 = a1\<lparr>al_acknowledged_by := Some actor', al_acknowledged_at := Some now'\<rparr> \<and>
            map_of (alerts db2) alert_id = Some a2 \<and>
            devices db2 = devices db1 \<and> readings db2 = readings db1)))"
  by (auto simp: acknowledge_alert_def Let_def map_of_update_rows)

theorem acknowledge_alert_contract_witness:
  "map_of (alerts alerted_db) 1 = Some unread_alert \<and>
   map_of (alerts alerted_db) 2 = None \<and>
   acknowledge_alert 2 ''dr-lee'' 3000 alerted_db = Inl NotFound \<and>
   (\<exists>db1 a1. acknowledge_alert 1 ''dr-lee'' 3000 alerted_db = Inr (db1, a1) \<and>
      al_is_acknowledged a1 \<and> al_is_read a1 \<and> al_acknowledged_by a1 = Some ''dr-lee'' \<and>
      (\<exists>db2 a2. acknowledge_alert 1 ''dr-kim'' 4000 db1 = Inr (db2, a2) \<and>
         a2 = a1\<lparr>al_acknowledged_by := Some ''dr-kim'', al_acknowledged_at := Some 4000\<rparr>))"
proof -
  have a: "map_of (alerts alerted_db) 1 = Some unread_alert"
    by (simp add: alerted_db_def)
  have b: "map_of (alerts alerted_db) 2 = None"
    by (simp add: alerted_db_def)
  note first = acknowledge_alert_contract[of alerted_db 1 "''dr-lee''" 3000 "''dr-kim''" 4000]
  note missing = acknowledge_alert_contract[of alerted_db 2 "''dr-lee''" 3000 "''dr-kim''" 4000]
  have "acknowledge_alert 2 ''dr-lee'' 3000 alerted_db = Inl NotFound"
    using b missing by blast
  moreover have "\<exists>db1 a1. acknowledge_alert 1 ''dr-lee'' 3000 alerted_db = Inr (db1, a1) \<and>
      al_is_acknowledged a1 \<and> al_is_read a1 \<and> al_acknowledged_by a1 = Some ''dr-lee'' \<and>
      (\<exists>db2 a2. acknowledge_alert 1 ''dr-kim'' 4000 db1 = Inr (db2, a2) \<and>
         a2 = a1\<lparr>al_acknowledged_by := Some ''dr-kim'', al_acknowledged_at := Some 4000\<rparr>)"
    using a first by blast
  ultimately show ?thesis using a b by blast
qed

section \<open>Where the endpoint departs from the specification\<close>

lemmas endpoint_defs = create_sensor_reading_def ingest_body_def analyze_reading_def
  extract_numeric_def reading_unit_def SensorReadingResponse_def get_alert_type_def
  value_and_gt_def value_and_lt_def threshold_get_def resolve_thresholds_def
  default_thresholds_def bind_exn_def num_gt_def num_lt_def str_int_def digit_char_def Let_def

text \<open>
  Claim C1. The table of the specification applies to every reading with a numeric value.
  A heart rate of 0 on an active device, for a patient without a profile, is below the
  minimum of 60 and the table makes it a warning with the message "Low heart rate: 0 bpm".
  The endpoint stores the reading as good with no alert, since the branch is guarded by the
  truth value of the number; on the values that are absent or not zero the code follows
  the table (\<open>analyze_reading_follows_table\<close>).
\<close>

theorem heart_rate_zero_stored_good:
  "create_sensor_reading rt no_faults example_clock heart_rate_0 example_db =
     (example_db\<lparr>
        devices := [(1, glucose_meter), (2, retired_cuff),
                    (3, heart_strap\<lparr>sd_last_sync := Some 1002\<rparr>), (4, step_tracker)],
        readings := [(1, \<lparr>sr_device_id = 3, sr_patient_id = 7, sr_reading_type = ''heart_rate'',
           sr_reading_timestamp = 1000,
           sr_reading_data = [(''value'', JNum (PInt 0)), (''unit'', JStr ''bpm'')],
           sr_numeric_value = Some (PInt 0), sr_unit = Some (JStr ''bpm''),
           sr_quality = ''good'', sr_is_alert = False, sr_alert_severity = None,
           sr_alert_message = None\<rparr>)]\<rparr>,
      Inr \<lparr>rr_id = 1, rr_device_name = ''Strap'', rr_reading_type = ''heart_rate'',
           rr_reading_timestamp = 1000, rr_numeric_value = PInt 0, rr_unit = ''bpm'',
           rr_quality = ''good'', rr_is_alert = False, rr_alert_message = None\<rparr>) \<and>
   classify_table rt ''heart_rate'' (Some (PInt 0)) default_threshold_set =
     (''warning'', True, Some ''warning'', Some ''Low heart rate: 0 bpm'')"
  by (simp add: endpoint_defs store_defs example_defs classify_table_def default_threshold_set_def)

text \<open>
  Claim C2. Scenario A of the specification: a glucose reading of 180 on an active device.
  The reading is stored under the key 1 as an alert, and one alert row is stored with the
  severity and the message of the reading, unread and unacknowledged; its reference to the
  reading is empty, where the claim has it name the reading.
\<close>

theorem alert_row_without_reading_reference:
  "create_sensor_reading rt no_faults example_clock glucose_180 example_db =
     (example_db\<lparr>
        devices := [(1, glucose_meter\<lparr>sd_last_sync := Some 1002\<rparr>), (2, retired_cuff),
                    (3, heart_strap), (4, step_tracker)],
        readings := [(1, \<lparr>sr_device_id = 1, sr_patient_id = 7, sr_reading_type = ''glucose'',
           sr_reading_timestamp = 1000,
           sr_reading_data = [(''value'', JNum (PInt 180)), (''unit'', JStr ''mg/dL'')],
           sr_numeric_value = Some (PInt 180), sr_unit = Some (JStr ''mg/dL''),
           sr_quality = ''critical'', sr_is_alert = True, sr_alert_severity = Some ''critical'',
           sr_alert_message = Some ''High glucose level: 180 mg/dL''\<rparr>)],
        alerts := [(1, \<lparr>al_patient_id = 7, al_sensor_reading_id = None,
           al_alert_type = ''high_glucose'', al_severity = Some ''critical'',
           al_alert_message = Some ''High glucose level: 180 mg/dL'',
           al_alert_timestamp = 1001, al_is_read = False, al_is_acknowledged = False,
           al_acknowledged_by = None, al_acknowledged_at = None\<rparr>)]\<rparr>,
      Inr \<lparr>rr_id = 1, rr_device_name = ''Meter'', rr_reading_type = ''glucose'',
           rr_reading_timestamp = 1000, rr_numeric_value = PInt 180, rr_unit = ''mg/dL'',
           rr_quality = ''critical'', rr_is_alert = True,
           rr_alert_message = Some ''High glucose level: 180 mg/dL''\<rparr>)"
  by (simp add: endpoint_defs store_defs example_defs)

text \<open>
  Claim C5. A step count from an active activity tracker has no \<^verbatim>\<open>value\<close> field, so its
  numeric value is absent and it is classified good. With no failure of the store at all,
  the reading is committed and the endpoint answers 500: building the response raises,
  because the response model requires a number.
\<close>

theorem reading_without_value_answers_500:
  "create_sensor_reading rt no_faults example_clock activity_steps example_db =
     (example_db\<lparr>
        devices := [(1, glucose_meter), (2, retired_cuff), (3, heart_strap),
                    (4, step_tracker\<lparr>sd_last_sync := Some 1002\<rparr>)],
        readings := [(1, \<lparr>sr_device_id = 4, sr_patient_id = 7, sr_reading_type = ''activity'',
           sr_reading_timestamp = 1000,
           sr_reading_data = [(''steps'', JNum (PInt 4200)), (''unit'', JStr ''steps'')],
           sr_numeric_value = None, sr_unit = Some (JStr ''steps''),
           sr_quality = ''good'', sr_is_alert = False, sr_alert_severity = None,
           sr_alert_message = None\<rparr>)]\<rparr>,
      Inl (HTTPException 500 (''Error creating reading: '' @ str_exn rt ValidationError)))"
  by (simp add: endpoint_defs store_defs example_defs)

text \<open>
  Claim C7. Patient 7 has a profile with the glucose maximum 120. A glucose reading of 130
  is classified by the high-glucose row of the table, and the alert stored for it has the
  type \<open>general_glucose\<close>: \<^verbatim>\<open>_get_alert_type\<close> compares with the constants 140 and 70,
  not with the bounds resolved for the patient.
\<close>

theorem alert_type_ignores_profile:
  "analyze_reading rt no_faults ''glucose'' (Some (PInt 130)) 7 profiled_db =
     Inr (''critical'', True, Some ''critical'', Some ''High glucose level: 130 mg/dL'') \<and>
   get_alert_type ''glucose'' (Some (PInt 130)) = ''general_glucose'' \<and>
   alerts (fst (create_sensor_reading rt no_faults example_clock glucose_130 profiled_db)) =
     [(1, \<lparr>al_patient_id = 7, al_sensor_reading_id = None,
        al_alert_type = ''general_glucose'', al_severity = Some ''critical'',
        al_alert_message = Some ''High glucose level: 130 mg/dL'',
        al_alert_timestamp = 1001, al_is_read = False, al_is_acknowledged = False,
        al_acknowledged_by = None, al_acknowledged_at = None\<rparr>)]"
  by (simp add: endpoint_defs store_defs example_defs)

end
